theory Spec2Isabelle
  imports Complex_Main
begin

section \<open>pydp700: a driver for DP700 series power supplies\<close>

text \<open>
  A shallow embedding of \<^verbatim>\<open>pydp700/dp700.py\<close>. The class \<^verbatim>\<open>PowerSupply\<close> wraps a
  pyserial port: every operation formats one command, writes it, reads one line and
  decodes it. The port and the console are the only state; they are threaded through
  every operation, and every Python exception is a value of \<open>py_error\<close>.
\<close>

subsection \<open>Python values\<close>

text \<open>
  A \<^verbatim>\<open>bytes\<close> object is a list of 8-bit characters. A \<^verbatim>\<open>str\<close> is held as its UTF-8
  encoding: concatenation, splitting at an ASCII separator and equality are the same
  on the encoding as on the code points, and \<^verbatim>\<open>encode("utf-8")\<close> is the identity.
\<close>

type_synonym bytes = "char list"
type_synonym pystr = "char list"

datatype py_error =
    SerialException
  | ValueError
  | UnicodeDecodeError
  | IndexError
  | AttributeError
  | KeyError

text \<open>
  The numeric value of a Python float (an IEEE double): a rational, an infinity or a
  NaN. Comparison of doubles, and of an int with a double, is exact in CPython, so
  \<open>\<le>\<close> on these values is the comparison the driver's guards make.
\<close>

datatype float_value = Finite rat | PosInf | NegInf | NaN

text \<open>
  The driver does two things with a numeric argument: it compares it with a limit and
  it formats it with \<^verbatim>\<open>'{}'.format\<close>. An int is formatted in decimal. The text of a
  float is CPython's \<^verbatim>\<open>repr\<close> (the shortest decimal that rounds to the double), which
  is not computed here: a float is its value together with its \<^verbatim>\<open>repr\<close> text.
\<close>

datatype pynum = PyInt int | PyFloat float_value pystr

fun num_value :: "pynum \<Rightarrow> float_value" where
  "num_value (PyInt i) = Finite (of_int i)"
| "num_value (PyFloat v r) = v"

fun float_le :: "float_value \<Rightarrow> float_value \<Rightarrow> bool" where
  "float_le NaN y = False"
| "float_le x NaN = False"
| "float_le NegInf y = True"
| "float_le x PosInf = True"
| "float_le PosInf y = False"
| "float_le x NegInf = False"
| "float_le (Finite a) (Finite b) = (a \<le> b)"

fun float_less :: "float_value \<Rightarrow> float_value \<Rightarrow> bool" where
  "float_less NaN y = False"
| "float_less x NaN = False"
| "float_less PosInf y = False"
| "float_less x NegInf = False"
| "float_less NegInf y = True"
| "float_less x PosInf = True"
| "float_less (Finite a) (Finite b) = (a < b)"

definition py_le :: "pynum \<Rightarrow> pynum \<Rightarrow> bool" where
  "py_le a b = float_le (num_value a) (num_value b)"

definition py_ge :: "pynum \<Rightarrow> pynum \<Rightarrow> bool" where
  "py_ge a b = float_le (num_value b) (num_value a)"

definition py_gt :: "pynum \<Rightarrow> pynum \<Rightarrow> bool" where
  "py_gt a b = float_less (num_value b) (num_value a)"

text \<open>\<^verbatim>\<open>str(int)\<close>: the decimal digits, with a minus sign for a negative number.\<close>

definition digit_char :: "nat \<Rightarrow> char" where
  "digit_char d = char_of (48 + d)"

fun str_nat :: "nat \<Rightarrow> pystr" where
  "str_nat n = (if n < 10 then [digit_char n] else str_nat (n div 10) @ [digit_char (n mod 10)])"

definition str_int :: "int \<Rightarrow> pystr" where
  "str_int i = (if i < 0 then CHR ''-'' # str_nat (nat (- i)) else str_nat (nat i))"

text \<open>\<^verbatim>\<open>'{}'.format(x)\<close> for a number.\<close>

fun py_format :: "pynum \<Rightarrow> pystr" where
  "py_format (PyInt i) = str_int i"
| "py_format (PyFloat v r) = r"

text \<open>\<^verbatim>\<open>s.split(sep)\<close> with a one-character separator: never an empty list.\<close>

fun split :: "char \<Rightarrow> pystr \<Rightarrow> pystr list" where
  "split sep [] = [[]]"
| "split sep (c # cs) =
     (if c = sep then [] # split sep cs
      else (case split sep cs of
              [] \<Rightarrow> [[c]]
            | f # fs \<Rightarrow> (c # f) # fs))"

text \<open>\<^verbatim>\<open>d[k]\<close> on a dict: KeyError when the key is missing.\<close>

definition lookup :: "('k \<rightharpoonup> 'v) \<Rightarrow> 'k \<Rightarrow> py_error + 'v" where
  "lookup d k = (case d k of None \<Rightarrow> Inl KeyError | Some v \<Rightarrow> Inr v)"

text \<open>\<^verbatim>\<open>xs[i]\<close> for a non-negative constant index: IndexError out of range.\<close>

definition getitem :: "'a list \<Rightarrow> nat \<Rightarrow> py_error + 'a" where
  "getitem xs i = (if i < length xs then Inr (xs ! i) else Inl IndexError)"

subsection \<open>Decoding UTF-8\<close>

text \<open>
  \<^verbatim>\<open>bytes.decode("utf-8")\<close> is strict: it accepts the well-formed byte sequences of the
  Unicode standard (no overlong forms, no surrogates, nothing above U+10FFFF) and raises
  UnicodeDecodeError on anything else.
\<close>

definition in_range :: "nat \<Rightarrow> nat \<Rightarrow> char \<Rightarrow> bool" where
  "in_range lo hi c = (lo \<le> of_char c \<and> of_char c \<le> hi)"

definition cont :: "char \<Rightarrow> bool" where
  "cont c = in_range 0x80 0xBF c"

fun utf8_valid :: "bytes \<Rightarrow> bool" where
  "utf8_valid [] = True"
| "utf8_valid (a # rest) =
     (if in_range 0x00 0x7F a then utf8_valid rest
      else if in_range 0xC2 0xDF a then
        (case rest of b # r \<Rightarrow> cont b \<and> utf8_valid r | _ \<Rightarrow> False)
      else if in_range 0xE0 0xEF a then
        (case rest of
           b # c # r \<Rightarrow>
             (if a = CHR 0xE0 then in_range 0xA0 0xBF b
              else if a = CHR 0xED then in_range 0x80 0x9F b
              else cont b) \<and> cont c \<and> utf8_valid r
         | _ \<Rightarrow> False)
      else if in_range 0xF0 0xF4 a then
        (case rest of
           b # c # d # r \<Rightarrow>
             (if a = CHR 0xF0 then in_range 0x90 0xBF b
              else if a = CHR 0xF4 then in_range 0x80 0x8F b
              else cont b) \<and> cont c \<and> cont d \<and> utf8_valid r
         | _ \<Rightarrow> False)
      else False)"

definition decode_utf8 :: "bytes \<Rightarrow> py_error + pystr" where
  "decode_utf8 b = (if utf8_valid b then Inr b else Inl UnicodeDecodeError)"

subsection \<open>The syntax accepted by \<^verbatim>\<open>float\<close>\<close>

text \<open>
  \<^verbatim>\<open>float(b)\<close> on a bytes object, as CPython does it: underscores are allowed only
  between two digits and are removed; ASCII whitespace is stripped at both ends; what
  is left is an optional sign followed by \<^verbatim>\<open>inf\<close>, \<^verbatim>\<open>infinity\<close> or \<^verbatim>\<open>nan\<close> in any
  case, or by a decimal number (digits, with an optional point, at least one digit)
  with an optional exponent. Anything else raises ValueError.
\<close>

definition is_digit :: "char \<Rightarrow> bool" where
  "is_digit c = in_range 48 57 c"

definition is_space :: "char \<Rightarrow> bool" where
  "is_space c = (c \<in> set [CHR 0x20, CHR 0x09, CHR 0x0A, CHR 0x0B, CHR 0x0C, CHR 0x0D])"

definition to_lower :: "char \<Rightarrow> char" where
  "to_lower c = (if in_range 65 90 c then char_of (of_char c + (32::nat)) else c)"

fun underscores_ok :: "char \<Rightarrow> bytes \<Rightarrow> bool" where
  "underscores_ok prev [] = (prev \<noteq> CHR ''_'')"
| "underscores_ok prev (c # cs) =
     (if c = CHR ''_'' then is_digit prev \<and> underscores_ok c cs
      else if prev = CHR ''_'' then is_digit c \<and> underscores_ok c cs
      else underscores_ok c cs)"

definition strip :: "bytes \<Rightarrow> bytes" where
  "strip s = rev (dropWhile is_space (rev (dropWhile is_space s)))"

definition skip_sign :: "bytes \<Rightarrow> bytes" where
  "skip_sign s = (case s of c # cs \<Rightarrow> (if c = CHR ''+'' \<or> c = CHR ''-'' then cs else s) | [] \<Rightarrow> s)"

definition exponent_ok :: "bytes \<Rightarrow> bool" where
  "exponent_ok s =
     (case s of
        [] \<Rightarrow> True
      | c # cs \<Rightarrow>
          (c = CHR ''e'' \<or> c = CHR ''E'') \<and>
          (let ds = skip_sign cs in ds \<noteq> [] \<and> list_all is_digit ds))"

definition number_ok :: "bytes \<Rightarrow> bool" where
  "number_ok s =
     (let ip = takeWhile is_digit s; r1 = dropWhile is_digit s in
      case r1 of
        c # cs \<Rightarrow>
          (if c = CHR ''.'' then
             (let fp = takeWhile is_digit cs; r2 = dropWhile is_digit cs in
              (ip \<noteq> [] \<or> fp \<noteq> []) \<and> exponent_ok r2)
           else ip \<noteq> [] \<and> exponent_ok r1)
      | [] \<Rightarrow> ip \<noteq> [])"

definition inf_or_nan :: "bytes \<Rightarrow> bool" where
  "inf_or_nan s = (map to_lower s \<in> set [''inf'', ''infinity'', ''nan''])"

definition float_syntax :: "bytes \<Rightarrow> bool" where
  "float_syntax b =
     (if CHR ''_'' \<in> set b \<and> \<not> underscores_ok (CHR 0x00) b then False
      else (let s = skip_sign (strip (filter (\<lambda>c. c \<noteq> CHR ''_'') b))
            in number_ok s \<or> inf_or_nan s))"

subsection \<open>The serial port\<close>

text \<open>
  \<^verbatim>\<open>serial.Serial\<close> belongs to pyserial, not to this repository. The port is modelled
  by what the driver can observe of it: whether it is open, its settings, the trace of
  what the driver did to it, and the chunks that the device will hand to the coming
  calls of \<^verbatim>\<open>readline\<close>. A chunk is what one call returns: a line with its terminator,
  or whatever had arrived when the read timeout expired. When no chunk is left the
  read times out with no data and returns \<^verbatim>\<open>b''\<close>. Every call on a port that is not
  open raises (pyserial's PortNotOpenError, a SerialException).
\<close>

datatype event = Write bytes | Flush | Close

record serial_port =
  is_open :: bool
  baudrate :: pynum
  timeout :: pynum
  events :: "event list"
  pending :: "bytes list"

record world =
  port :: serial_port
  stdout :: "pystr list"

text \<open>
  An operation takes the world and returns its outcome, an exception (\<open>Inl\<close>) or a
  value (\<open>Inr\<close>), with the world it leaves behind: what was written before an exception
  stays written.
\<close>

type_synonym 'a io = "world \<Rightarrow> (py_error + 'a) \<times> world"

definition bind :: "'a io \<Rightarrow> ('a \<Rightarrow> 'b io) \<Rightarrow> 'b io" where
  "bind m f = (\<lambda>w. case m w of (Inl e, w') \<Rightarrow> (Inl e, w') | (Inr x, w') \<Rightarrow> f x w')"

definition return :: "'a \<Rightarrow> 'a io" where
  "return x = (\<lambda>w. (Inr x, w))"

definition raise :: "py_error \<Rightarrow> 'a io" where
  "raise e = (\<lambda>w. (Inl e, w))"

definition Serial :: "pynum \<Rightarrow> pynum \<Rightarrow> unit io" where
  "Serial baud tmo =
     (\<lambda>w. (Inr (), w\<lparr>port := (port w)\<lparr>is_open := True, baudrate := baud, timeout := tmo\<rparr>\<rparr>))"

definition serial_write :: "bytes \<Rightarrow> unit io" where
  "serial_write data =
     (\<lambda>w. if is_open (port w)
          then (Inr (), w\<lparr>port := (port w)\<lparr>events := events (port w) @ [Write data]\<rparr>\<rparr>)
          else (Inl SerialException, w))"

definition serial_readline :: "bytes io" where
  "serial_readline =
     (\<lambda>w. if is_open (port w)
          then (case pending (port w) of
                  [] \<Rightarrow> (Inr [], w)
                | data # rest \<Rightarrow> (Inr data, w\<lparr>port := (port w)\<lparr>pending := rest\<rparr>\<rparr>))
          else (Inl SerialException, w))"

definition serial_flush :: "unit io" where
  "serial_flush =
     (\<lambda>w. if is_open (port w)
          then (Inr (), w\<lparr>port := (port w)\<lparr>events := events (port w) @ [Flush]\<rparr>\<rparr>)
          else (Inl SerialException, w))"

definition serial_set_baudrate :: "pynum \<Rightarrow> unit io" where
  "serial_set_baudrate baud = (\<lambda>w. (Inr (), w\<lparr>port := (port w)\<lparr>baudrate := baud\<rparr>\<rparr>))"

definition serial_close :: "unit io" where
  "serial_close =
     (\<lambda>w. if is_open (port w)
          then (Inr (), w\<lparr>port := (port w)\<lparr>is_open := False,
                                            events := events (port w) @ [Close]\<rparr>\<rparr>)
          else (Inr (), w))"

definition print :: "pystr \<Rightarrow> unit io" where
  "print line = (\<lambda>w. (Inr (), w\<lparr>stdout := stdout w @ [line]\<rparr>))"

subsection \<open>The driver\<close>

text \<open>
  A decoded response is a float or a text. The float is \<^verbatim>\<open>float(b)\<close> for the bytes \<open>b\<close>
  it was read from; its rounding to a double is not computed, so it is held as \<open>b\<close>.
\<close>

datatype response = Number bytes | Text pystr

definition MODEL_PARAMETERS :: "pystr \<rightharpoonup> (pystr \<rightharpoonup> pynum)" where
  "MODEL_PARAMETERS =
     map_of
       [(''DP711'', map_of [(''max_voltage'', PyFloat (Finite 30) ''30.0''),
                            (''max_current'', PyFloat (Finite 5) ''5.0'')]),
        (''DP712'', map_of [(''max_voltage'', PyFloat (Finite 50) ''50.0''),
                            (''max_current'', PyFloat (Finite 3) ''3.0'')])]"

record power_supply =
  manufacturer :: pystr
  model :: pystr
  serial :: pystr
  software_version :: pystr
  ident :: pystr
  max_voltage :: "pynum option"
  max_current :: "pynum option"

definition py_float :: "bytes \<Rightarrow> py_error + response" where
  "py_float b = (if float_syntax b then Inr (Number b) else Inl ValueError)"

definition decode_response :: "bytes \<Rightarrow> py_error + response" where
  "decode_response response =
     (case py_float response of
        Inr v \<Rightarrow> Inr v
      | Inl ValueError \<Rightarrow>
          (case decode_utf8 response of
             Inl e \<Rightarrow> Inl e
           | Inr s \<Rightarrow> Inr (Text s))
      | Inl e \<Rightarrow> Inl e)"

definition execute_command :: "bytes \<Rightarrow> response io" where
  "execute_command command =
     bind (serial_write command) (\<lambda>_.
     bind serial_readline (\<lambda>data.
     (\<lambda>w. (decode_response (butlast data), w))))"

definition set_baud_rate :: "power_supply \<Rightarrow> pynum \<Rightarrow> unit io" where
  "set_baud_rate self baud_rate =
     bind (execute_command ('':SYST:COMM:RS232:BAUD '' @ py_format baud_rate @ ''\<newline>'')) (\<lambda>_.
     bind serial_flush (\<lambda>_.
     serial_set_baudrate baud_rate))"

definition set_output_voltage :: "power_supply \<Rightarrow> pynum \<Rightarrow> unit io" where
  "set_output_voltage self voltage =
     (if (case max_voltage self of None \<Rightarrow> True | Some m \<Rightarrow> py_le voltage m)
      then bind (execute_command ('':VOLT '' @ py_format voltage @ ''\<newline>'')) (\<lambda>_. return ())
      else return ())"

definition get_requested_output_voltage :: "power_supply \<Rightarrow> response io" where
  "get_requested_output_voltage self = execute_command '':VOLT?\<newline>''"

definition get_output_voltage :: "power_supply \<Rightarrow> response io" where
  "get_output_voltage self = execute_command '':MEAS:VOLT? CH1\<newline>''"

definition set_output_current :: "power_supply \<Rightarrow> pynum \<Rightarrow> unit io" where
  "set_output_current self current =
     (if (case max_current self of None \<Rightarrow> True | Some m \<Rightarrow> py_le current m)
      then bind (execute_command ('':CURR '' @ py_format current @ ''\<newline>'')) (\<lambda>_. return ())
      else return ())"

definition get_requested_output_current :: "power_supply \<Rightarrow> response io" where
  "get_requested_output_current self = execute_command '':CURR?\<newline>''"

definition get_output_current :: "power_supply \<Rightarrow> response io" where
  "get_output_current self = execute_command '':MEAS:CURR? CH1\<newline>''"

definition get_output_power :: "power_supply \<Rightarrow> response io" where
  "get_output_power self = execute_command '':MEAS:POWE? CH1\<newline>''"

definition recall_from_memory :: "power_supply \<Rightarrow> pynum \<Rightarrow> unit io" where
  "recall_from_memory self index =
     (if py_ge index (PyInt 1) \<or> py_le index (PyInt 10)
      then bind (execute_command ('':MEM:LOAD RSF,'' @ py_format index @ ''\<newline>'')) (\<lambda>_. return ())
      else return ())"

definition save_to_memory :: "power_supply \<Rightarrow> pynum \<Rightarrow> unit io" where
  "save_to_memory self index =
     (if py_ge index (PyInt 1) \<or> py_le index (PyInt 10)
      then bind (execute_command ('':MEM:STOR RSF,'' @ py_format index @ ''\<newline>'')) (\<lambda>_. return ())
      else return ())"

definition enable_output :: "power_supply \<Rightarrow> bool \<Rightarrow> unit io" where
  "enable_output self enable =
     bind (execute_command (if enable then '':OUTP:STAT CH1, ON\<newline>''
                            else '':OUTP:STAT CH1, OFF\<newline>'')) (\<lambda>_. return ())"

definition is_output_enabled :: "power_supply \<Rightarrow> bool io" where
  "is_output_enabled self =
     bind (execute_command '':OUTP:STAT? CH1 \<newline>'') (\<lambda>r. return (r = Text ''ON''))"

definition get_identification :: "power_supply \<Rightarrow> pystr" where
  "get_identification self = ident self"

text \<open>
  \<^verbatim>\<open>_get_device_identification\<close> stores four attributes on the object under
  construction; here it returns them, and the constructor builds the object.
  \<^verbatim>\<open>split\<close> exists on a text only: a numeric response raises AttributeError.
\<close>

definition get_device_identification :: "(pystr \<times> pystr \<times> pystr \<times> pystr) io" where
  "get_device_identification =
     bind (execute_command ''*IDN?\<newline>'') (\<lambda>identification_string.
     (\<lambda>w. (case identification_string of
             Number b \<Rightarrow> Inl AttributeError
           | Text s \<Rightarrow>
               (let identification_values = split CHR '','' s in
                case getitem identification_values 0 of Inl e \<Rightarrow> Inl e | Inr v0 \<Rightarrow>
                case getitem identification_values 1 of Inl e \<Rightarrow> Inl e | Inr v1 \<Rightarrow>
                case getitem identification_values 2 of Inl e \<Rightarrow> Inl e | Inr v2 \<Rightarrow>
                case getitem identification_values 3 of Inl e \<Rightarrow> Inl e | Inr v3 \<Rightarrow>
                Inr (v0, v1, v2, v3)), w)))"

text \<open>
  The body of the constructor's \<^verbatim>\<open>try\<close> block: two lookups in the table for each
  limit, each raising KeyError when the key is missing.
\<close>

definition lookup_limits :: "pystr \<Rightarrow> py_error + pynum \<times> pynum" where
  "lookup_limits mdl =
     (case lookup MODEL_PARAMETERS mdl of Inl e \<Rightarrow> Inl e | Inr pv \<Rightarrow>
      case lookup pv ''max_voltage'' of Inl e \<Rightarrow> Inl e | Inr mv \<Rightarrow>
      case lookup MODEL_PARAMETERS mdl of Inl e \<Rightarrow> Inl e | Inr pc \<Rightarrow>
      case lookup pc ''max_current'' of Inl e \<Rightarrow> Inl e | Inr mc \<Rightarrow>
      Inr (mv, mc))"

text \<open>
  The constructor. The port name selects the device and is not modelled: the world
  holds the one device. The handler of KeyError prints the warning and sets both
  limits to None; any other exception would propagate.
\<close>

definition PowerSupply_init :: "pynum \<Rightarrow> pynum \<Rightarrow> power_supply io" where
  "PowerSupply_init baud tmo =
     bind (Serial baud tmo) (\<lambda>_.
     bind get_device_identification (\<lambda>(man, mdl, ser, ver).
     (let self = \<lparr>manufacturer = man, model = mdl, serial = ser, software_version = ver,
                  ident = man @ '' '' @ mdl @ '' '' @ ver,
                  max_voltage = None, max_current = None\<rparr>
      in case lookup_limits mdl of
           Inr (mv, mc) \<Rightarrow> return (self\<lparr>max_voltage := Some mv, max_current := Some mc\<rparr>)
         | Inl KeyError \<Rightarrow>
             bind (print (''<WARNING> '' @ mdl @ '' is unsupported!'')) (\<lambda>_.
             return (self\<lparr>max_voltage := None, max_current := None\<rparr>))
         | Inl e \<Rightarrow> raise e)))"

text \<open>\<^verbatim>\<open>__str__\<close>.\<close>

definition PowerSupply_str :: "power_supply \<Rightarrow> pystr" where
  "PowerSupply_str self = ''<PowerSupply> '' @ get_identification self"

text \<open>\<^verbatim>\<open>__exit__\<close>: back to local control, then close the port.\<close>

definition PowerSupply_exit :: "power_supply \<Rightarrow> unit io" where
  "PowerSupply_exit self =
     bind (execute_command '':SYST:LOC\<newline>'') (\<lambda>_. serial_close)"

text \<open>
  The \<^verbatim>\<open>with\<close> statement around a body: \<^verbatim>\<open>__enter__\<close> returns the object, the body
  runs, and \<^verbatim>\<open>__exit__\<close> is called whether the body returned or raised. \<^verbatim>\<open>__exit__\<close>
  returns None, so an exception of the body propagates; an exception raised by
  \<^verbatim>\<open>__exit__\<close> itself takes its place.
\<close>

definition with_scope :: "power_supply \<Rightarrow> (power_supply \<Rightarrow> 'a io) \<Rightarrow> 'a io" where
  "with_scope self body =
     (\<lambda>w. case body self w of
            (outcome, w1) \<Rightarrow>
              (case PowerSupply_exit self w1 of
                 (Inl e, w2) \<Rightarrow> (Inl e, w2)
               | (Inr _, w2) \<Rightarrow> (outcome, w2)))"

subsection \<open>Reading the model\<close>

text \<open>What the next call of \<^verbatim>\<open>readline\<close> returns on an open port.\<close>

definition next_read :: "world \<Rightarrow> bytes" where
  "next_read w = (case pending (port w) of [] \<Rightarrow> [] | data # rest \<Rightarrow> data)"

text \<open>
  A simulated bench for the examples: a port with default settings on which the device
  will answer with the given chunks, before the driver is constructed (\<open>unopened\<close>) and
  after (\<open>bench\<close>); and a DP711 as the constructor leaves it.
\<close>

definition unopened :: "bytes list \<Rightarrow> world" where
  "unopened chunks =
     \<lparr>port = \<lparr>is_open = False, baudrate = PyInt 0, timeout = PyInt 0,
              events = [], pending = chunks\<rparr>,
      stdout = []\<rparr>"

definition bench :: "bytes list \<Rightarrow> world" where
  "bench chunks =
     \<lparr>port = \<lparr>is_open = True, baudrate = PyInt 9600, timeout = PyFloat (Finite (1 / 5)) ''0.2'',
              events = [], pending = chunks\<rparr>,
      stdout = []\<rparr>"

text \<open>The bench after the device has answered everything and the given events took place.\<close>

definition bench_after :: "event list \<Rightarrow> world" where
  "bench_after es =
     \<lparr>port = \<lparr>is_open = True, baudrate = PyInt 9600, timeout = PyFloat (Finite (1 / 5)) ''0.2'',
              events = es, pending = []\<rparr>,
      stdout = []\<rparr>"

definition dp711 :: power_supply where
  "dp711 =
     \<lparr>manufacturer = ''RIGOL'', model = ''DP711'', serial = ''SN123'',
      software_version = ''1.02'', ident = ''RIGOL DP711 1.02'',
      max_voltage = Some (PyFloat (Finite 30) ''30.0''),
      max_current = Some (PyFloat (Finite 5) ''5.0'')\<rparr>"

section \<open>Properties\<close>

subsection \<open>Command execution\<close>

lemma execute_command_open:
  "is_open (port w) \<Longrightarrow>
   execute_command cmd w =
     (decode_response (butlast (next_read w)),
      w\<lparr>port := (port w)\<lparr>events := events (port w) @ [Write cmd],
                          pending := tl (pending (port w))\<rparr>\<rparr>)"
  by (simp add: execute_command_def bind_def serial_write_def serial_readline_def next_read_def
      split: list.splits)

lemma execute_command_closed:
  "\<not> is_open (port w) \<Longrightarrow> execute_command cmd w = (Inl SerialException, w)"
  by (simp add: execute_command_def bind_def serial_write_def)

lemma execute_command_events:
  "is_open (port w) \<Longrightarrow>
   events (port (snd (execute_command cmd w))) = events (port w) @ [Write cmd]"
  by (simp add: execute_command_open)

lemma execute_command_keeps_open:
  "is_open (port (snd (execute_command cmd w))) = is_open (port w)"
  by (cases "is_open (port w)") (simp_all add: execute_command_open execute_command_closed)

lemma return_world: "snd (return x w) = w"
  by (simp add: return_def)

lemma discard_world: "snd (bind m (\<lambda>x. return (f x)) w) = snd (m w)"
  by (simp add: bind_def return_def split: prod.splits sum.splits)

lemma discard_events:
  "events (port (snd (bind m (\<lambda>x. return (f x)) w))) = events (port (snd (m w)))"
  by (simp add: discard_world)

text \<open>No operation of the driver other than \<^verbatim>\<open>__exit__\<close> opens or closes the port.\<close>

lemma operations_keep_port_open:
  "is_open (port (snd (set_output_voltage self v w))) = is_open (port w)"
  "is_open (port (snd (set_output_current self v w))) = is_open (port w)"
  "is_open (port (snd (get_requested_output_voltage self w))) = is_open (port w)"
  "is_open (port (snd (get_output_voltage self w))) = is_open (port w)"
  "is_open (port (snd (get_requested_output_current self w))) = is_open (port w)"
  "is_open (port (snd (get_output_current self w))) = is_open (port w)"
  "is_open (port (snd (get_output_power self w))) = is_open (port w)"
  "is_open (port (snd (recall_from_memory self v w))) = is_open (port w)"
  "is_open (port (snd (save_to_memory self v w))) = is_open (port w)"
  "is_open (port (snd (enable_output self b w))) = is_open (port w)"
  "is_open (port (snd (is_output_enabled self w))) = is_open (port w)"
  by (simp_all add: set_output_voltage_def set_output_current_def
      get_requested_output_voltage_def get_output_voltage_def
      get_requested_output_current_def get_output_current_def get_output_power_def
      recall_from_memory_def save_to_memory_def enable_output_def is_output_enabled_def
      discard_world execute_command_keeps_open return_world)

lemma decode_response_cases:
  "decode_response b =
     (if float_syntax b then Inr (Number b)
      else if utf8_valid b then Inr (Text b) else Inl UnicodeDecodeError)"
  by (simp add: decode_response_def py_float_def decode_utf8_def)

lemma float_syntax_ON: "\<not> float_syntax ''ON''"
  by code_simp

lemma utf8_valid_ON: "utf8_valid ''ON''"
  by code_simp

lemma float_syntax_empty: "\<not> float_syntax []"
  by code_simp

lemma next_read_bench: "next_read (bench (chunk # chunks)) = chunk"
  by (simp add: next_read_def bench_def)

lemma bench_open: "is_open (port (bench chunks))"
  by (simp add: bench_def)

lemma bench_events: "events (port (bench chunks)) = []"
  by (simp add: bench_def)

subsection \<open>Comparison and formatting\<close>

lemma float_less_not_le: "float_less b a \<Longrightarrow> \<not> float_le a b"
  by (cases a; cases b) auto

lemma py_gt_not_le: "py_gt v m \<Longrightarrow> \<not> py_le v m"
  by (simp add: py_gt_def py_le_def float_less_not_le)

lemma str_int_examples:
  "str_int 0 = ''0''" "str_int 11 = ''11''" "str_int 31 = ''31''" "str_int 1000 = ''1000''"
  by code_simp+

subsection \<open>Setting the output voltage\<close>

text \<open>
  C1. On a driver whose limits are known, \<^verbatim>\<open>set_output_voltage(v)\<close> with \<open>v\<close> at most
  the maximum voltage writes exactly \<^verbatim>\<open>:VOLT {v}\n\<close> to the port, and with \<open>v\<close> above
  the maximum it writes nothing: the world is left as it was.
\<close>

theorem set_output_voltage_guard:
  assumes "max_voltage self = Some m" and "is_open (port w)"
  shows "(py_le v m \<longrightarrow>
            events (port (snd (set_output_voltage self v w))) =
              events (port w) @ [Write ('':VOLT '' @ py_format v @ ''\<newline>'')]) \<and>
         (py_gt v m \<longrightarrow> set_output_voltage self v w = (Inr (), w))"
proof (intro conjI impI)
  assume "py_le v m"
  with assms show "events (port (snd (set_output_voltage self v w))) =
      events (port w) @ [Write ('':VOLT '' @ py_format v @ ''\<newline>'')]"
    by (simp add: set_output_voltage_def discard_events execute_command_events)
next
  assume "py_gt v m"
  then have "\<not> py_le v m" by (rule py_gt_not_le)
  with assms show "set_output_voltage self v w = (Inr (), w)"
    by (simp add: set_output_voltage_def return_def)
qed

theorem set_output_voltage_guard_witness:
  "max_voltage dp711 = Some (PyFloat (Finite 30) ''30.0'') \<and> is_open (port (bench [])) \<and>
   py_le (PyFloat (Finite (25 / 2)) ''12.5'') (PyFloat (Finite 30) ''30.0'') \<and>
   events (port (snd (set_output_voltage dp711 (PyFloat (Finite (25 / 2)) ''12.5'') (bench [])))) =
     [Write '':VOLT 12.5\<newline>''] \<and>
   py_gt (PyInt 31) (PyFloat (Finite 30) ''30.0'') \<and>
   set_output_voltage dp711 (PyInt 31) (bench []) = (Inr (), bench [])"
proof -
  have m: "max_voltage dp711 = Some (PyFloat (Finite 30) ''30.0'')"
    by (simp add: dp711_def)
  have le: "py_le (PyFloat (Finite (25 / 2)) ''12.5'') (PyFloat (Finite 30) ''30.0'')"
    by (simp add: py_le_def)
  have gt: "py_gt (PyInt 31) (PyFloat (Finite 30) ''30.0'')"
    by (simp add: py_gt_def)
  show ?thesis
    using set_output_voltage_guard
        [where self = dp711 and w = "bench []" and v = "PyFloat (Finite (25 / 2)) ''12.5''", OF m]
      set_output_voltage_guard
        [where self = dp711 and w = "bench []" and v = "PyInt 31", OF m]
      m le gt
    by (simp add: bench_open bench_events)
qed

subsection \<open>The memory slots\<close>

text \<open>
  C2. For every integer index, 0 and 11 included, \<^verbatim>\<open>recall_from_memory\<close> and
  \<^verbatim>\<open>save_to_memory\<close> execute their command, writing \<^verbatim>\<open>:MEM:LOAD RSF,{index}\n\<close> and
  \<^verbatim>\<open>:MEM:STOR RSF,{index}\n\<close>: the guard \<^verbatim>\<open>index >= 1 or index <= 10\<close> is true for
  every integer.
\<close>

theorem memory_guard_always_true:
  assumes "is_open (port w)"
  shows "(py_ge (PyInt i) (PyInt 1) \<or> py_le (PyInt i) (PyInt 10)) \<and>
         events (port (snd (recall_from_memory self (PyInt i) w))) =
           events (port w) @ [Write ('':MEM:LOAD RSF,'' @ str_int i @ ''\<newline>'')] \<and>
         events (port (snd (save_to_memory self (PyInt i) w))) =
           events (port w) @ [Write ('':MEM:STOR RSF,'' @ str_int i @ ''\<newline>'')]"
proof -
  have guard: "py_ge (PyInt i) (PyInt 1) \<or> py_le (PyInt i) (PyInt 10)"
    by (simp add: py_ge_def py_le_def) linarith
  from guard assms show ?thesis
    by (simp add: recall_from_memory_def save_to_memory_def discard_events
        execute_command_events)
qed

theorem memory_guard_always_true_witness:
  "is_open (port (bench [])) \<and>
   events (port (snd (recall_from_memory dp711 (PyInt 0) (bench [])))) =
     [Write '':MEM:LOAD RSF,0\<newline>''] \<and>
   events (port (snd (save_to_memory dp711 (PyInt 11) (bench [])))) =
     [Write '':MEM:STOR RSF,11\<newline>'']"
  using memory_guard_always_true [where w = "bench []" and i = 0 and self = dp711]
    memory_guard_always_true [where w = "bench []" and i = 11 and self = dp711]
  by (simp add: bench_open bench_events str_int_examples)

subsection \<open>Construction\<close>

lemma Serial_effect:
  "Serial baud tmo w =
     (Inr (), w\<lparr>port := (port w)\<lparr>is_open := True, baudrate := baud, timeout := tmo\<rparr>\<rparr>)"
  by (simp add: Serial_def)

lemma getitem_simps:
  "getitem (a # b # c # d # extra) 0 = Inr a"
  "getitem (a # b # c # d # extra) (Suc 0) = Inr b"
  "getitem (a # b # c # d # extra) 2 = Inr c"
  "getitem (a # b # c # d # extra) 3 = Inr d"
  by (simp_all add: getitem_def numeral_3_eq_3 numeral_2_eq_2)

lemma get_device_identification_text:
  assumes "is_open (port w)"
    and "decode_response (butlast (next_read w)) = Inr (Text s)"
    and "split CHR '','' s = man # mdl # ser # ver # extra"
  shows "get_device_identification w =
           (Inr (man, mdl, ser, ver),
            w\<lparr>port := (port w)\<lparr>events := events (port w) @ [Write ''*IDN?\<newline>''],
                                pending := tl (pending (port w))\<rparr>\<rparr>)"
  using assms
  by (simp add: get_device_identification_def bind_def execute_command_open getitem_simps
      Let_def)

lemma get_device_identification_result:
  assumes "is_open (port w)"
  shows "fst (get_device_identification w) =
           (case decode_response (butlast (next_read w)) of
              Inl e \<Rightarrow> Inl e
            | Inr (Number b) \<Rightarrow> Inl AttributeError
            | Inr (Text s) \<Rightarrow>
                (if length (split CHR '','' s) < 4 then Inl IndexError
                 else Inr (split CHR '','' s ! 0, split CHR '','' s ! 1,
                           split CHR '','' s ! 2, split CHR '','' s ! 3)))"
  using assms
  by (simp add: get_device_identification_def bind_def execute_command_open getitem_def
      Let_def split: sum.splits response.splits)

lemma unknown_limits:
  "MODEL_PARAMETERS mdl = None \<Longrightarrow> lookup_limits mdl = Inl KeyError"
  by (simp add: lookup_limits_def lookup_def)

lemma limits_DP711:
  "lookup_limits ''DP711'' = Inr (PyFloat (Finite 30) ''30.0'', PyFloat (Finite 5) ''5.0'')"
  by (simp add: lookup_limits_def lookup_def MODEL_PARAMETERS_def)

lemma lookup_limits_error: "lookup_limits mdl = Inl e \<Longrightarrow> e = KeyError"
  by (auto simp: lookup_limits_def lookup_def split: option.splits sum.splits)

lemma init_after_identification:
  assumes "fst (get_device_identification (snd (Serial baud tmo w))) = Inr (man, mdl, ser, ver)"
  shows "\<exists>self. fst (PowerSupply_init baud tmo w) = Inr self \<and>
           manufacturer self = man \<and> model self = mdl \<and> serial self = ser \<and>
           software_version self = ver"
proof -
  obtain w2 where idn:
    "get_device_identification
       (w\<lparr>port := (port w)\<lparr>is_open := True, baudrate := baud, timeout := tmo\<rparr>\<rparr>) =
     (Inr (man, mdl, ser, ver), w2)"
    using assms by (cases "get_device_identification (snd (Serial baud tmo w))")
      (simp add: Serial_effect)
  show ?thesis
  proof (cases "lookup_limits mdl")
    case (Inl e)
    then have "lookup_limits mdl = Inl KeyError"
      using lookup_limits_error by blast
    then show ?thesis
      by (simp add: PowerSupply_init_def bind_def Serial_effect idn print_def return_def)
  next
    case (Inr lim)
    then show ?thesis
      by (cases lim)
        (simp add: PowerSupply_init_def bind_def Serial_effect idn return_def)
  qed
qed

lemma init_identification_fails:
  assumes "fst (get_device_identification (snd (Serial baud tmo w))) = Inl e"
  shows "fst (PowerSupply_init baud tmo w) = Inl e"
proof -
  obtain w2 where idn:
    "get_device_identification
       (w\<lparr>port := (port w)\<lparr>is_open := True, baudrate := baud, timeout := tmo\<rparr>\<rparr>) =
     (Inl e, w2)"
    using assms by (cases "get_device_identification (snd (Serial baud tmo w))")
      (simp add: Serial_effect)
  show ?thesis
    by (simp add: PowerSupply_init_def bind_def Serial_effect idn)
qed

text \<open>The constructor leaves the port open, whether it returns or raises.\<close>

lemma get_device_identification_keeps_open:
  "is_open (port (snd (get_device_identification w))) = is_open (port w)"
  by (cases "is_open (port w)")
    (simp_all add: get_device_identification_def bind_def execute_command_open
      execute_command_closed split: sum.splits)

lemma init_opens_port: "is_open (port (snd (PowerSupply_init baud tmo w)))"
proof -
  let ?w1 = "w\<lparr>port := (port w)\<lparr>is_open := True, baudrate := baud, timeout := tmo\<rparr>\<rparr>"
  obtain r w2 where idn: "get_device_identification ?w1 = (r, w2)"
    by (cases "get_device_identification ?w1")
  have "is_open (port (snd (get_device_identification ?w1)))"
    by (simp add: get_device_identification_keeps_open)
  with idn have opn: "is_open (port w2)" by simp
  show ?thesis
  proof (cases r)
    case (Inl e)
    with idn opn show ?thesis
      by (simp add: PowerSupply_init_def bind_def Serial_effect)
  next
    case (Inr flds)
    obtain man mdl ser ver where flds: "flds = (man, mdl, ser, ver)"
      by (cases flds)
    show ?thesis
    proof (cases "lookup_limits mdl")
      case (Inl e)
      then have "lookup_limits mdl = Inl KeyError"
        using lookup_limits_error by blast
      with Inr flds idn opn show ?thesis
        by (simp add: PowerSupply_init_def bind_def Serial_effect print_def return_def)
    next
      case lim: (Inr lim)
      with Inr flds idn opn show ?thesis
        by (cases lim) (simp add: PowerSupply_init_def bind_def Serial_effect return_def)
    qed
  qed
qed

lemma unlimited_voltage:
  "max_voltage self = None \<Longrightarrow> is_open (port w) \<Longrightarrow>
   events (port (snd (set_output_voltage self v w))) =
     events (port w) @ [Write ('':VOLT '' @ py_format v @ ''\<newline>'')]"
  by (simp add: set_output_voltage_def discard_events execute_command_events)

lemma unlimited_current:
  "max_current self = None \<Longrightarrow> is_open (port w) \<Longrightarrow>
   events (port (snd (set_output_current self v w))) =
     events (port w) @ [Write ('':CURR '' @ py_format v @ ''\<newline>'')]"
  by (simp add: set_output_current_def discard_events execute_command_events)

lemma decode_examples:
  "decode_response ''RIGOL,DP711,SN123,1.02'' = Inr (Text ''RIGOL,DP711,SN123,1.02'')"
  "decode_response ''RIGOL,DP999,SN123,1.02'' = Inr (Text ''RIGOL,DP999,SN123,1.02'')"
  "decode_response ''RIGOL,DP711'' = Inr (Text ''RIGOL,DP711'')"
  "decode_response ''1.5'' = Inr (Number ''1.5'')"
  "decode_response ''OFF'' = Inr (Text ''OFF'')"
  "decode_response [] = Inr (Text [])"
  by code_simp+

text \<open>
  C3. When the identification response names a model that is not in the table,
  construction completes, the warning is printed, both limits are None, and from then
  on \<^verbatim>\<open>set_output_voltage\<close> and \<^verbatim>\<open>set_output_current\<close> send their command for every
  argument.
\<close>

theorem unsupported_model_disables_limits:
  assumes "pending (port w) = data # rest"
    and "decode_response (butlast data) = Inr (Text s)"
    and "split CHR '','' s = man # mdl # ser # ver # extra"
    and "MODEL_PARAMETERS mdl = None"
  shows "\<exists>self w'.
           PowerSupply_init baud tmo w = (Inr self, w') \<and>
           stdout w' = stdout w @ [''<WARNING> '' @ mdl @ '' is unsupported!''] \<and>
           max_voltage self = None \<and> max_current self = None \<and>
           (\<forall>v u. is_open (port u) \<longrightarrow>
              events (port (snd (set_output_voltage self v u))) =
                events (port u) @ [Write ('':VOLT '' @ py_format v @ ''\<newline>'')] \<and>
              events (port (snd (set_output_current self v u))) =
                events (port u) @ [Write ('':CURR '' @ py_format v @ ''\<newline>'')])"
proof -
  let ?w1 = "w\<lparr>port := (port w)\<lparr>is_open := True, baudrate := baud, timeout := tmo\<rparr>\<rparr>"
  let ?w2 = "?w1\<lparr>port := (port ?w1)\<lparr>events := events (port ?w1) @ [Write ''*IDN?\<newline>''],
                                   pending := tl (pending (port ?w1))\<rparr>\<rparr>"
  let ?self = "\<lparr>manufacturer = man, model = mdl, serial = ser, software_version = ver,
                ident = man @ '' '' @ mdl @ '' '' @ ver,
                max_voltage = None, max_current = None\<rparr>"
  have opn: "is_open (port ?w1)" by simp
  have nr: "next_read ?w1 = data"
    using assms(1) by (simp add: next_read_def)
  have idn: "get_device_identification ?w1 = (Inr (man, mdl, ser, ver), ?w2)"
    using get_device_identification_text [OF opn, of s man mdl ser ver extra] assms(2,3) nr
    by simp
  have init: "PowerSupply_init baud tmo w =
      (Inr ?self, ?w2\<lparr>stdout := stdout ?w2 @ [''<WARNING> '' @ mdl @ '' is unsupported!'']\<rparr>)"
    using idn unknown_limits [OF assms(4)]
    by (simp add: PowerSupply_init_def bind_def Serial_effect print_def return_def)
  have lim: "max_voltage ?self = None" "max_current ?self = None" by simp_all
  show ?thesis
    using init unlimited_voltage [OF lim(1)] unlimited_current [OF lim(2)]
    by simp
qed

theorem unsupported_model_disables_limits_witness:
  "MODEL_PARAMETERS ''DP999'' = None \<and>
   (\<exists>self w'.
      PowerSupply_init (PyInt 9600) (PyFloat (Finite (1 / 5)) ''0.2'')
        (unopened [''RIGOL,DP999,SN123,1.02\<newline>'']) = (Inr self, w') \<and>
      stdout w' = [''<WARNING> DP999 is unsupported!''] \<and>
      max_voltage self = None \<and> max_current self = None \<and>
      events (port (snd (set_output_voltage self (PyInt 1000) (bench [])))) =
        [Write '':VOLT 1000\<newline>''] \<and>
      events (port (snd (set_output_current self (PyInt 1000) (bench [])))) =
        [Write '':CURR 1000\<newline>''])"
proof -
  have pend: "pending (port (unopened [''RIGOL,DP999,SN123,1.02\<newline>''])) =
      ''RIGOL,DP999,SN123,1.02\<newline>'' # []"
    by (simp add: unopened_def)
  have dec: "decode_response (butlast ''RIGOL,DP999,SN123,1.02\<newline>'') =
      Inr (Text ''RIGOL,DP999,SN123,1.02'')"
    by (simp add: decode_examples)
  have spl: "split CHR '','' ''RIGOL,DP999,SN123,1.02'' =
      ''RIGOL'' # ''DP999'' # ''SN123'' # ''1.02'' # []"
    by simp
  have unk: "MODEL_PARAMETERS ''DP999'' = None"
    by (simp add: MODEL_PARAMETERS_def)
  obtain self w' where
    init: "PowerSupply_init (PyInt 9600) (PyFloat (Finite (1 / 5)) ''0.2'')
             (unopened [''RIGOL,DP999,SN123,1.02\<newline>'']) = (Inr self, w')"
    and out: "stdout w' = stdout (unopened [''RIGOL,DP999,SN123,1.02\<newline>'']) @
                [''<WARNING> '' @ ''DP999'' @ '' is unsupported!'']"
    and lim: "max_voltage self = None" "max_current self = None"
    and send: "\<forall>v u. is_open (port u) \<longrightarrow>
              events (port (snd (set_output_voltage self v u))) =
                events (port u) @ [Write ('':VOLT '' @ py_format v @ ''\<newline>'')] \<and>
              events (port (snd (set_output_current self v u))) =
                events (port u) @ [Write ('':CURR '' @ py_format v @ ''\<newline>'')]"
    using unsupported_model_disables_limits [OF pend dec spl unk] by blast
  from send bench_open have
    "events (port (snd (set_output_voltage self (PyInt 1000) (bench [])))) =
       events (port (bench [])) @ [Write ('':VOLT '' @ py_format (PyInt 1000) @ ''\<newline>'')]"
    "events (port (snd (set_output_current self (PyInt 1000) (bench [])))) =
       events (port (bench [])) @ [Write ('':CURR '' @ py_format (PyInt 1000) @ ''\<newline>'')]"
    by blast+
  then have
    "events (port (snd (set_output_voltage self (PyInt 1000) (bench [])))) =
       [Write '':VOLT 1000\<newline>'']"
    "events (port (snd (set_output_current self (PyInt 1000) (bench [])))) =
       [Write '':CURR 1000\<newline>'']"
    by (simp_all add: bench_events str_int_examples)
  with init out lim unk show ?thesis
    by (simp add: unopened_def)
qed

text \<open>
  C4. If the device answers the identification query with
  \<^verbatim>\<open>RIGOL,DP711,SN123,1.02\n\<close>, construction succeeds, \<^verbatim>\<open>get_identification()\<close> returns
  \<^verbatim>\<open>RIGOL DP711 1.02\<close>, and the limits are 30.0 volts and 5.0 amperes.
\<close>

theorem identification_scenario:
  assumes "pending (port w) = ''RIGOL,DP711,SN123,1.02\<newline>'' # rest"
  shows "\<exists>self w'.
           PowerSupply_init baud tmo w = (Inr self, w') \<and>
           get_identification self = ''RIGOL DP711 1.02'' \<and>
           max_voltage self = Some (PyFloat (Finite 30) ''30.0'') \<and>
           max_current self = Some (PyFloat (Finite 5) ''5.0'')"
proof -
  let ?w1 = "w\<lparr>port := (port w)\<lparr>is_open := True, baudrate := baud, timeout := tmo\<rparr>\<rparr>"
  let ?w2 = "?w1\<lparr>port := (port ?w1)\<lparr>events := events (port ?w1) @ [Write ''*IDN?\<newline>''],
                                   pending := tl (pending (port ?w1))\<rparr>\<rparr>"
  have opn: "is_open (port ?w1)" by simp
  have nr: "butlast (next_read ?w1) = ''RIGOL,DP711,SN123,1.02''"
    using assms by (simp add: next_read_def)
  have idn: "get_device_identification ?w1 =
      (Inr (''RIGOL'', ''DP711'', ''SN123'', ''1.02''), ?w2)"
    using get_device_identification_text
      [OF opn, of _ "''RIGOL''" "''DP711''" "''SN123''" "''1.02''" "[]"]
    by (simp add: nr decode_examples)
  show ?thesis
    by (simp add: PowerSupply_init_def bind_def Serial_effect idn return_def
        limits_DP711 get_identification_def)
qed

theorem identification_scenario_witness:
  "\<exists>self w'.
     PowerSupply_init (PyInt 9600) (PyFloat (Finite (1 / 5)) ''0.2'')
       (unopened [''RIGOL,DP711,SN123,1.02\<newline>'']) = (Inr self, w') \<and>
     get_identification self = ''RIGOL DP711 1.02'' \<and>
     max_voltage self = Some (PyFloat (Finite 30) ''30.0'') \<and>
     max_current self = Some (PyFloat (Finite 5) ''5.0'')"
proof -
  have "pending (port (unopened [''RIGOL,DP711,SN123,1.02\<newline>''])) =
      ''RIGOL,DP711,SN123,1.02\<newline>'' # []"
    by (simp add: unopened_def)
  from identification_scenario [OF this] show ?thesis .
qed

subsection \<open>Querying the output state\<close>

text \<open>
  C5. For every response, \<^verbatim>\<open>is_output_enabled()\<close> returns true if and only if the
  response without its last byte is exactly \<^verbatim>\<open>ON\<close>; for every other decoded value, a
  number or another text such as \<^verbatim>\<open>OFF\<close>, it returns false.
\<close>

theorem is_output_enabled_iff_ON:
  assumes "is_open (port w)"
  shows "(fst (is_output_enabled self w) = Inr True) = (butlast (next_read w) = ''ON'') \<and>
         (\<forall>v. decode_response (butlast (next_read w)) = Inr v \<longrightarrow>
              fst (is_output_enabled self w) = Inr (v = Text ''ON''))"
proof -
  have res: "fst (is_output_enabled self w) =
      (case decode_response (butlast (next_read w)) of
         Inl e \<Rightarrow> Inl e | Inr v \<Rightarrow> Inr (v = Text ''ON''))"
    using assms
    by (simp add: is_output_enabled_def bind_def return_def execute_command_open
        split: sum.splits)
  have on: "(decode_response b = Inr (Text ''ON'')) = (b = ''ON'')" for b
  proof
    assume "decode_response b = Inr (Text ''ON'')"
    then show "b = ''ON''"
      by (simp add: decode_response_cases split: if_splits)
  next
    assume "b = ''ON''"
    then show "decode_response b = Inr (Text ''ON'')"
      by (simp add: decode_response_cases float_syntax_ON utf8_valid_ON del: utf8_valid.simps)
  qed
  have "(fst (is_output_enabled self w) = Inr True) = (butlast (next_read w) = ''ON'')"
    unfolding res on [symmetric] by (simp split: sum.splits)
  moreover have "\<forall>v. decode_response (butlast (next_read w)) = Inr v \<longrightarrow>
      fst (is_output_enabled self w) = Inr (v = Text ''ON'')"
    unfolding res by simp
  ultimately show ?thesis by simp
qed

theorem is_output_enabled_iff_ON_witness:
  "is_open (port (bench [''ON\<newline>''])) \<and>
   fst (is_output_enabled dp711 (bench [''ON\<newline>''])) = Inr True \<and>
   fst (is_output_enabled dp711 (bench [''OFF\<newline>''])) = Inr False \<and>
   fst (is_output_enabled dp711 (bench [''1.5\<newline>''])) = Inr False"
  using is_output_enabled_iff_ON [where w = "bench [''ON\<newline>'']" and self = dp711]
    is_output_enabled_iff_ON [where w = "bench [''OFF\<newline>'']" and self = dp711]
    is_output_enabled_iff_ON [where w = "bench [''1.5\<newline>'']" and self = dp711]
  by (simp add: bench_open next_read_bench decode_examples)

text \<open>
  C6. \<^verbatim>\<open>is_output_enabled()\<close> writes its query to the port. The bytes written are
  \<^verbatim>\<open>:OUTP:STAT? CH1\<close>, one space, and the line terminator: they are not the command
  followed directly by the terminator, as they are for the other three queries of
  channel 1.
\<close>

theorem is_output_enabled_command:
  assumes "is_open (port w)"
  shows "events (port (snd (is_output_enabled self w))) =
           events (port w) @ [Write ('':OUTP:STAT? CH1'' @ '' '' @ ''\<newline>'')] \<and>
         '':OUTP:STAT? CH1'' @ '' '' @ ''\<newline>'' \<noteq> '':OUTP:STAT? CH1'' @ ''\<newline>'' \<and>
         events (port (snd (get_output_voltage self w))) =
           events (port w) @ [Write ('':MEAS:VOLT? CH1'' @ ''\<newline>'')]"
  using assms
  by (simp add: is_output_enabled_def get_output_voltage_def discard_events
      execute_command_events)

theorem is_output_enabled_command_witness:
  "is_open (port (bench [''ON\<newline>''])) \<and>
   events (port (snd (is_output_enabled dp711 (bench [''ON\<newline>''])))) =
     [Write '':OUTP:STAT? CH1 \<newline>'']"
  using is_output_enabled_command [where w = "bench [''ON\<newline>'']" and self = dp711]
  by (simp add: bench_open bench_events)

subsection \<open>Malformed identification responses\<close>

text \<open>
  C7, as the claim states it, fails: a response of five fields constructs a driver.
\<close>

theorem five_fields_construct_counterexample:
  "length (split CHR '','' ''RIGOL,DP711,SN123,1.02,EXTRA'') = 5 \<and>
   fst (PowerSupply_init (PyInt 9600) (PyFloat (Finite (1 / 5)) ''0.2'')
          (unopened [''RIGOL,DP711,SN123,1.02,EXTRA\<newline>''])) = Inr dp711"
  by code_simp

text \<open>
  C7, amended. Construction fails with IndexError exactly when the response decodes to
  a text that splits on commas into fewer than four fields. A text of four or more
  fields constructs a driver from the first four; a response that parses as a number
  fails with AttributeError, and one that cannot be decoded fails with the decoding
  error.
\<close>

theorem construction_needs_four_fields:
  assumes "pending (port w) = data # rest"
  shows "(case decode_response (butlast data) of
            Inl e \<Rightarrow> fst (PowerSupply_init baud tmo w) = Inl e
          | Inr (Number b) \<Rightarrow> fst (PowerSupply_init baud tmo w) = Inl AttributeError
          | Inr (Text s) \<Rightarrow>
              (if length (split CHR '','' s) < 4
               then fst (PowerSupply_init baud tmo w) = Inl IndexError
               else \<exists>self. fst (PowerSupply_init baud tmo w) = Inr self \<and>
                      manufacturer self = split CHR '','' s ! 0 \<and>
                      model self = split CHR '','' s ! 1 \<and>
                      serial self = split CHR '','' s ! 2 \<and>
                      software_version self = split CHR '','' s ! 3))"
proof -
  let ?w1 = "snd (Serial baud tmo w)"
  have opn: "is_open (port ?w1)"
    by (simp add: Serial_effect)
  have nr: "next_read ?w1 = data"
    using assms by (simp add: Serial_effect next_read_def)
  note idn = get_device_identification_result [OF opn, unfolded nr]
  show ?thesis
  proof (cases "decode_response (butlast data)")
    case (Inl e)
    with idn show ?thesis
      by (simp add: init_identification_fails)
  next
    case (Inr r)
    show ?thesis
    proof (cases r)
      case (Number b)
      with Inr idn show ?thesis
        by (simp add: init_identification_fails)
    next
      case (Text s)
      show ?thesis
      proof (cases "length (split CHR '','' s) < 4")
        case True
        with Inr Text idn show ?thesis
          by (simp add: init_identification_fails)
      next
        case False
        with Inr Text idn have "fst (get_device_identification ?w1) =
            Inr (split CHR '','' s ! 0, split CHR '','' s ! 1,
                 split CHR '','' s ! 2, split CHR '','' s ! 3)"
          by simp
        from init_after_identification [OF this] Inr Text False show ?thesis
          by simp
      qed
    qed
  qed
qed

theorem construction_needs_four_fields_witness:
  "length (split CHR '','' ''RIGOL,DP711'') = 2 \<and>
   fst (PowerSupply_init (PyInt 9600) (PyFloat (Finite (1 / 5)) ''0.2'')
          (unopened [''RIGOL,DP711\<newline>''])) = Inl IndexError \<and>
   fst (PowerSupply_init (PyInt 9600) (PyFloat (Finite (1 / 5)) ''0.2'')
          (unopened [''1.5\<newline>''])) = Inl AttributeError"
proof -
  have p1: "pending (port (unopened [''RIGOL,DP711\<newline>''])) = ''RIGOL,DP711\<newline>'' # []"
    by (simp add: unopened_def)
  have p2: "pending (port (unopened [''1.5\<newline>''])) = ''1.5\<newline>'' # []"
    by (simp add: unopened_def)
  show ?thesis
    using construction_needs_four_fields
        [OF p1, where baud = "PyInt 9600" and tmo = "PyFloat (Finite (1 / 5)) ''0.2''"]
      construction_needs_four_fields
        [OF p2, where baud = "PyInt 9600" and tmo = "PyFloat (Finite (1 / 5)) ''0.2''"]
    by (simp add: decode_examples)
qed

subsection \<open>Reads that time out\<close>

text \<open>
  C8, as the claim states it, fails: on a read that times out with no data a query
  returns the empty text, not an error.
\<close>

theorem empty_read_counterexample:
  "next_read (bench []) = [] \<and> fst (get_output_voltage dp711 (bench [])) = Inr (Text '''')"
  by code_simp

text \<open>
  C8, amended. When \<^verbatim>\<open>readline\<close> returns the empty byte string, command execution
  does not fail: it returns the empty text. An exception raised by the port itself, in
  the model a write on a port that is not open, is not caught and reaches the caller
  with the world unchanged.
\<close>

theorem empty_read_returns_empty_text:
  "(is_open (port w) \<and> next_read w = [] \<longrightarrow>
      fst (execute_command cmd w) = Inr (Text '''')) \<and>
   (\<not> is_open (port w) \<longrightarrow> execute_command cmd w = (Inl SerialException, w))"
  by (simp add: execute_command_open execute_command_closed decode_response_cases
      float_syntax_empty)

theorem empty_read_returns_empty_text_witness:
  "is_open (port (bench [])) \<and> next_read (bench []) = [] \<and>
   fst (execute_command '':VOLT?\<newline>'' (bench [])) = Inr (Text '''') \<and>
   \<not> is_open (port (unopened [])) \<and>
   execute_command '':VOLT?\<newline>'' (unopened []) = (Inl SerialException, unopened [])"
proof -
  have nr: "next_read (bench []) = []"
    by (simp add: next_read_def bench_def)
  have cl: "\<not> is_open (port (unopened []))"
    by (simp add: unopened_def)
  show ?thesis
    using empty_read_returns_empty_text [where w = "bench []" and cmd = "'':VOLT?\<newline>''"]
      empty_read_returns_empty_text [where w = "unopened []" and cmd = "'':VOLT?\<newline>''"]
      nr cl
    by (simp add: bench_open)
qed

subsection \<open>Leaving the scope\<close>

lemma PowerSupply_exit_open:
  assumes "is_open (port w)"
  shows "PowerSupply_exit self w =
           (case decode_response (butlast (next_read w)) of
              Inl e \<Rightarrow>
                (Inl e, w\<lparr>port := (port w)\<lparr>events := events (port w) @ [Write '':SYST:LOC\<newline>''],
                                           pending := tl (pending (port w))\<rparr>\<rparr>)
            | Inr r \<Rightarrow>
                (Inr (), w\<lparr>port := (port w)\<lparr>is_open := False,
                    events := events (port w) @ [Write '':SYST:LOC\<newline>'', Close],
                    pending := tl (pending (port w))\<rparr>\<rparr>))"
  using assms
  by (simp add: PowerSupply_exit_def bind_def execute_command_open serial_close_def
      split: sum.splits)

text \<open>
  C9. On every exit from the scope, whether the body returned or raised, \<^verbatim>\<open>__exit__\<close>
  writes \<^verbatim>\<open>:SYST:LOC\n\<close> exactly once, and the port is closed only after that write.
  The port is open when the body ends, as no operation of the driver closes it. The
  close follows whenever the reply to the command can be decoded, and then the outcome
  of the body, value or exception, is the outcome of the scope.
\<close>

theorem teardown_writes_local_once:
  assumes "body self w = (outcome, u)" and "is_open (port u)"
  shows "events (port (snd (with_scope self body w))) =
           events (port u) @ Write '':SYST:LOC\<newline>'' #
             (case decode_response (butlast (next_read u)) of Inl e \<Rightarrow> [] | Inr r \<Rightarrow> [Close]) \<and>
         (case decode_response (butlast (next_read u)) of
            Inl e \<Rightarrow> fst (with_scope self body w) = Inl e
          | Inr r \<Rightarrow> fst (with_scope self body w) = outcome \<and>
                     \<not> is_open (port (snd (with_scope self body w))))"
  using assms
  by (simp add: with_scope_def PowerSupply_exit_open split: sum.splits)

lemma scope_examples:
  "get_output_voltage dp711 (bench [''12.5\<newline>'']) =
     (Inr (Number ''12.5''), bench_after [Write '':MEAS:VOLT? CH1\<newline>''])"
  "is_output_enabled dp711 (bench [[CHR 0xFF, CHR 0x0A]]) =
     (Inl UnicodeDecodeError, bench_after [Write '':OUTP:STAT? CH1 \<newline>''])"
  by code_simp+

lemma bench_after_simps:
  "is_open (port (bench_after es))" "events (port (bench_after es)) = es"
  "next_read (bench_after es) = []"
  by (simp_all add: bench_after_def next_read_def)

theorem teardown_writes_local_once_witness:
  "fst (with_scope dp711 get_output_voltage (bench [''12.5\<newline>''])) = Inr (Number ''12.5'') \<and>
   events (port (snd (with_scope dp711 get_output_voltage (bench [''12.5\<newline>''])))) =
     [Write '':MEAS:VOLT? CH1\<newline>'', Write '':SYST:LOC\<newline>'', Close] \<and>
   fst (with_scope dp711 is_output_enabled (bench [[CHR 0xFF, CHR 0x0A]])) =
     Inl UnicodeDecodeError \<and>
   events (port (snd (with_scope dp711 is_output_enabled (bench [[CHR 0xFF, CHR 0x0A]])))) =
     [Write '':OUTP:STAT? CH1 \<newline>'', Write '':SYST:LOC\<newline>'', Close]"
  using teardown_writes_local_once
      [where body = get_output_voltage and self = dp711 and w = "bench [''12.5\<newline>'']"
         and outcome = "Inr (Number ''12.5'')"
         and u = "bench_after [Write '':MEAS:VOLT? CH1\<newline>'']"]
    teardown_writes_local_once
      [where body = is_output_enabled and self = dp711 and w = "bench [[CHR 0xFF, CHR 0x0A]]"
         and outcome = "Inl UnicodeDecodeError"
         and u = "bench_after [Write '':OUTP:STAT? CH1 \<newline>'']"]
  by (simp add: scope_examples bench_after_simps decode_examples)

subsection \<open>Stripping the line terminator\<close>

text \<open>
  C10. Command execution drops the last byte of whatever \<^verbatim>\<open>readline\<close> returned before
  decoding, whether or not that byte is a line feed, and an empty read decodes to the
  empty text.
\<close>

theorem execute_command_strips_last_byte:
  assumes "is_open (port w)"
  shows "(pending (port w) = (d @ [c]) # rest \<longrightarrow>
            fst (execute_command cmd w) = decode_response d) \<and>
         (next_read w = [] \<longrightarrow> fst (execute_command cmd w) = Inr (Text ''''))"
  using assms
  by (simp add: execute_command_open next_read_def decode_response_cases float_syntax_empty)

theorem execute_command_strips_last_byte_witness:
  "is_open (port (bench [''12.55''])) \<and>
   fst (execute_command '':VOLT?\<newline>'' (bench [''12.55''])) = Inr (Number ''12.5'') \<and>
   fst (execute_command '':VOLT?\<newline>'' (bench [[]])) = Inr (Text '''')"
proof -
  have p: "pending (port (bench [''12.55''])) = (''12.5'' @ ''5'') # []"
    by (simp add: bench_def)
  have d: "decode_response ''12.5'' = Inr (Number ''12.5'')"
    by code_simp
  show ?thesis
    using execute_command_strips_last_byte
        [where w = "bench [''12.55'']" and cmd = "'':VOLT?\<newline>''" and d = "''12.5''"
           and c = "CHR ''5''" and rest = "[]"]
      execute_command_strips_last_byte [where w = "bench [[]]" and cmd = "'':VOLT?\<newline>''"]
      p d
    by (simp add: bench_open next_read_bench)
qed

end
